theory Spec2Isabelle
  imports Main "HOL-Library.Word" "HOL-Library.Signed_Division"
begin

section \<open>Machine integers and errors\<close>

text \<open>
  Go's \<open>int64\<close> and \<open>uint64\<close> are 64-bit words: \<open>+\<close>, \<open>-\<close> and \<open>*\<close> wrap
  around, \<open>sint\<close> reads a word as two's complement and \<open>uint\<close> as unsigned. Go's \<open>int\<close> is
  taken to be 64 bits wide (a 64-bit platform). A Go string is a sequence of bytes, indexed
  and measured in bytes: \<open>string\<close>.
\<close>

type_synonym int64 = "64 word"
type_synonym uint64 = "64 word"

text \<open>The two causes a \<open>strconv.NumError\<close> carries.\<close>

datatype num_err = ErrSyntax | ErrRange

text \<open>The driver's error number used by \<open>stringToValue\<close>; its numeric value is declared
  elsewhere in the driver and plays no role here.\<close>

datatype errno = ErrInvalidTimestampTz

text \<open>The kinds of \<open>reflect.Kind\<close>: \<open>reflect.Bool\<close>, \<open>reflect.Int\<close>, ...\<close>

datatype kind =
    reflect_Invalid | reflect_Bool
  | reflect_Int | reflect_Int8 | reflect_Int16 | reflect_Int32 | reflect_Int64
  | reflect_Uint | reflect_Uint8 | reflect_Uint16 | reflect_Uint32 | reflect_Uint64
  | reflect_Uintptr
  | reflect_Float32 | reflect_Float64 | reflect_Complex64 | reflect_Complex128
  | reflect_Array | reflect_Chan | reflect_Func | reflect_Interface | reflect_Map | reflect_Ptr
  | reflect_Slice | reflect_String | reflect_Struct | reflect_UnsafePointer

text \<open>
  Everything that stops a function short of a normal result: a \<open>*strconv.NumError\<close> (with
  the string that was parsed and the cause), a \<open>*SnowflakeError\<close> (number and message), the
  error of \<open>valueToString\<close> for a kind it does not handle, and a run-time panic (with
  its message).
\<close>

datatype error =
    NumError string num_err
  | SnowflakeError errno string
  | UnexpectedType kind
  | Panic string

section \<open>The library functions the conversions call\<close>

subsection \<open>\<open>strconv.ParseUint\<close> and \<open>strconv.ParseInt\<close>, base 10, 64 bits\<close>

definition is_digit :: "char \<Rightarrow> bool" where
  "is_digit d = (48 \<le> (of_char d :: int) \<and> (of_char d :: int) \<le> 57)"

definition digit_val :: "char \<Rightarrow> int" where
  "digit_val d = of_char d - 48"

text \<open>
  The digit loop of \<open>ParseUint\<close>. The \<open>uint64\<close> accumulator is kept as the integer it
  stands for, with Go's overflow checks written out: a byte that is not a decimal digit is a
  syntax error; an accumulator at or above \<open>cutoff = maxUint64 / 10 + 1\<close> is a range
  error (so \<open>n * 10\<close> never wraps), and so is a sum \<open>n * 10 + v\<close> beyond \<open>maxUint64\<close>
  (which Go detects by the wrapped sum being smaller than \<open>n * 10\<close>).
\<close>

definition maxUint64 :: int where
  "maxUint64 = 18446744073709551615"

definition cutoff10 :: int where
  "cutoff10 = maxUint64 div 10 + 1"

fun ParseUint_loop :: "int \<Rightarrow> string \<Rightarrow> num_err + int" where
  "ParseUint_loop n [] = Inr n"
| "ParseUint_loop n (d # s) =
     (if \<not> is_digit d then Inl ErrSyntax
      else if cutoff10 \<le> n then Inl ErrRange
      else (let n1 = n * 10 + digit_val d in
            if maxUint64 < n1 then Inl ErrRange
            else ParseUint_loop n1 s))"

definition ParseUint :: "string \<Rightarrow> num_err + uint64" where
  "ParseUint s =
     (if s = [] then Inl ErrSyntax
      else (case ParseUint_loop 0 s of
              Inl e \<Rightarrow> Inl e
            | Inr n \<Rightarrow> Inr (word_of_int n)))"

text \<open>
  \<open>ParseInt\<close> picks off a leading sign, parses the rest as unsigned, and checks the range:
  a non-negative value must be below \<open>2 ^ 63\<close>, a negative one at most \<open>2 ^ 63\<close> in
  magnitude. Every failure is a \<open>NumError\<close> carrying the whole input.
\<close>

definition ParseInt :: "string \<Rightarrow> error + int64" where
  "ParseInt s0 =
     (if s0 = [] then Inl (NumError s0 ErrSyntax)
      else (let neg = (hd s0 = CHR ''-'');
                s = (if hd s0 = CHR ''+'' \<or> hd s0 = CHR ''-'' then tl s0 else s0) in
            (case ParseUint s of
               Inl e \<Rightarrow> Inl (NumError s0 e)
             | Inr un \<Rightarrow>
                 if \<not> neg \<and> (9223372036854775808 :: uint64) \<le> un
                 then Inl (NumError s0 ErrRange)
                 else if neg \<and> (9223372036854775808 :: uint64) < un
                 then Inl (NumError s0 ErrRange)
                 else Inr (if neg then - un else un))))"

subsection \<open>\<open>strconv.FormatUint\<close> and \<open>strconv.FormatInt\<close>, base 10\<close>

definition digit_char :: "int \<Rightarrow> char" where
  "digit_char n = char_of (48 + n)"

text \<open>The decimal digits of a non-negative integer, most significant first.\<close>

function digits10 :: "int \<Rightarrow> string" where
  "digits10 n =
     (if n < 10 then [digit_char n] else digits10 (n div 10) @ [digit_char (n mod 10)])"
  by pat_completeness auto
termination
  by (relation "measure nat") auto

declare digits10.simps [simp del]

definition FormatUint :: "uint64 \<Rightarrow> string" where
  "FormatUint u = digits10 (uint u)"

text \<open>A negative number is printed as a minus sign and the digits of its magnitude,
  \<open>uint64(-i)\<close>, which is \<open>2 ^ 63\<close> for the least \<open>int64\<close>.\<close>

definition FormatInt :: "int64 \<Rightarrow> string" where
  "FormatInt i = (if sint i < 0 then CHR ''-'' # digits10 (uint (- i)) else digits10 (uint i))"

subsection \<open>\<open>strings.Split\<close> on a one-byte separator and \<open>strings.Repeat\<close>\<close>

text \<open>\<open>strings.Split(s, sep)\<close> for a separator of one byte: the fields between the
  occurrences of the separator, one more than there are occurrences (the empty string has
  the single field \<open>""\<close>).\<close>

fun Split :: "string \<Rightarrow> char \<Rightarrow> string list" where
  "Split [] sep = [] # []"
| "Split (c # s) sep =
     (if c = sep then [] # Split s sep
      else (case Split s sep of
              [] \<Rightarrow> [c] # []
            | w # ws \<Rightarrow> (c # w) # ws))"

text \<open>\<open>strings.Repeat\<close> panics when the count is negative.\<close>

definition Repeat :: "string \<Rightarrow> int \<Rightarrow> error + string" where
  "Repeat s count =
     (if count < 0 then Inl (Panic ''strings: negative Repeat count'')
      else Inr (concat (replicate (nat count) s)))"

section \<open>\<open>extractTimestamp\<close>\<close>

text \<open>
  The scanning loop of \<open>extractTimestamp\<close>, from index \<open>i\<close>: at the first \<open>.\<close> the prefix
  \<open>srcValue[0:i]\<close> is parsed as the seconds and the loop is left with that \<open>i\<close>; a parse
  error returns at once. Without a \<open>.\<close> the loop ends with \<open>i = len(srcValue)\<close> and the
  seconds still zero.
\<close>

function extractTimestamp_loop :: "string \<Rightarrow> nat \<Rightarrow> error + (nat \<times> int64)" where
  "extractTimestamp_loop srcValue i =
     (if i < length srcValue then
        if srcValue ! i = CHR ''.'' then
          (case ParseInt (take i srcValue) of
             Inl err \<Rightarrow> Inl err
           | Inr sec \<Rightarrow> Inr (i, sec))
        else extractTimestamp_loop srcValue (i + 1)
      else Inr (i, 0))"
  by pat_completeness auto
termination
  by (relation "measure (\<lambda>(srcValue, i). length srcValue - i)") auto

declare extractTimestamp_loop.simps [simp del]

definition extractTimestamp :: "string \<Rightarrow> error + (int64 \<times> int64)" where
  "extractTimestamp srcValue =
     (case extractTimestamp_loop srcValue 0 of
        Inl err \<Rightarrow> Inl err
      | Inr (i, sec0) \<Rightarrow>
          if i = length srcValue then
            (case ParseInt srcValue of
               Inl err \<Rightarrow> Inl err
             | Inr sec \<Rightarrow> Inr (sec, 0))
          else
            (let s = drop (i + 1) srcValue in
             (case Repeat ''0'' (9 - int (length s)) of
                Inl p \<Rightarrow> Inl p
              | Inr zeros \<Rightarrow>
                  (case ParseInt (s @ zeros) of
                     Inl err \<Rightarrow> Inl err
                   | Inr nsec \<Rightarrow> Inr (sec0, nsec)))))"

section \<open>Instants: the part of package \<open>time\<close> the decoder uses\<close>

text \<open>A \<open>*time.Location\<close>: UTC, the zone of the process (\<open>time.Local\<close>), or a zone at a
  fixed number of minutes east of UTC.\<close>

datatype location = UTC | Local | FixedOffset int

text \<open>Modelled from the spec: \<open>sfutil.LocationWithOffset\<close>, a helper of the driver whose
  source is in another package. The specification describes the zone attached to a
  \<open>TIMESTAMP_TZ\<close> as a fixed-offset zone equal to the decoded minute offset; the argument is
  a Go \<open>int\<close>, read as a signed number of minutes.\<close>

definition LocationWithOffset :: "int64 \<Rightarrow> location" where
  "LocationWithOffset offset = FixedOffset (sint offset)"

text \<open>
  A \<open>time.Time\<close> is an instant and a location. The instant is kept as seconds since the
  Unix epoch (a 64-bit count) and nanoseconds within the second.
\<close>

record Time =
  t_sec :: int64
  t_nsec :: int
  t_loc :: location

text \<open>The zero \<open>Time{}\<close>: January 1 of year 1, 00:00:00 UTC.\<close>

definition zeroTime :: Time where
  "zeroTime = \<lparr>t_sec = - 62135596800, t_nsec = 0, t_loc = UTC\<rparr>"

text \<open>
  \<open>time.Unix(sec, nsec)\<close>: nanoseconds outside \<open>[0, 1e9)\<close> are carried into the
  seconds (Go's \<open>/\<close> truncates towards zero: \<open>sdiv\<close>); the result is in the local zone.
\<close>

definition Unix :: "int64 \<Rightarrow> int64 \<Rightarrow> Time" where
  "Unix sec nsec =
     (let ns = sint nsec in
      if ns < 0 \<or> 1000000000 \<le> ns then
        (let n = ns sdiv 1000000000;
             sec1 = sec + word_of_int n;
             ns1 = ns - n * 1000000000 in
         if ns1 < 0 then \<lparr>t_sec = sec1 - 1, t_nsec = ns1 + 1000000000, t_loc = Local\<rparr>
         else \<lparr>t_sec = sec1, t_nsec = ns1, t_loc = Local\<rparr>)
      else \<lparr>t_sec = sec, t_nsec = ns, t_loc = Local\<rparr>)"

text \<open>
  Go itself counts a \<open>Time\<close>'s seconds from January 1 of year 1: the Unix seconds plus
  \<open>unixToInternal\<close>, in a wrapping \<open>int64\<close>.
\<close>

definition unixToInternal :: int64 where
  "unixToInternal = 62135596800"

text \<open>
  \<open>t.addSec(d)\<close> adds \<open>d\<close> to that internal count. The sum saturates: when it has
  overflowed (it moved against the sign of \<open>d\<close>), the count becomes \<open>1<<63 - 1\<close> for a
  positive \<open>d\<close> and \<open>-(1<<63 - 1)\<close> otherwise.
\<close>

definition addSec :: "Time \<Rightarrow> int64 \<Rightarrow> Time" where
  "addSec t d =
     (let ext = t_sec t + unixToInternal;
          sum = ext + d;
          ext1 = (if (sint ext < sint sum) = (0 < sint d) then sum
                  else if 0 < sint d then 9223372036854775807
                  else - 9223372036854775807) in
      t\<lparr>t_sec := ext1 - unixToInternal\<rparr>)"

text \<open>\<open>t.Add(d)\<close> for a duration \<open>d\<close> in nanoseconds (an \<open>int64\<close>): whole seconds
  and the remainder are split off by truncating division, the nanoseconds are brought back
  into \<open>[0, 1e9)\<close>, and the seconds are added by \<open>addSec\<close>.\<close>

definition Add :: "Time \<Rightarrow> int64 \<Rightarrow> Time" where
  "Add t d =
     (let dsec = sint d sdiv 1000000000;
          nsec = t_nsec t + sint d smod 1000000000 in
      if 1000000000 \<le> nsec then
        addSec (t\<lparr>t_nsec := nsec - 1000000000\<rparr>) (word_of_int (dsec + 1))
      else if nsec < 0 then
        addSec (t\<lparr>t_nsec := nsec + 1000000000\<rparr>) (word_of_int (dsec - 1))
      else addSec (t\<lparr>t_nsec := nsec\<rparr>) (word_of_int dsec))"

definition toUTC :: "Time \<Rightarrow> Time" where
  "toUTC t = t\<lparr>t_loc := UTC\<rparr>"

definition In :: "Time \<Rightarrow> location \<Rightarrow> Time" where
  "In t l = t\<lparr>t_loc := l\<rparr>"

text \<open>
  \<open>t.Zone()\<close>, its offset in seconds east of UTC. For the local zone the offset comes from
  the zone rules of the process, looked up at the instant's Unix seconds: the rules are the
  parameter \<open>localZone\<close>.
\<close>

definition Zone :: "(int64 \<Rightarrow> int64) \<Rightarrow> Time \<Rightarrow> int64" where
  "Zone localZone t =
     (case t_loc t of
        UTC \<Rightarrow> 0
      | Local \<Rightarrow> localZone (t_sec t)
      | FixedOffset m \<Rightarrow> word_of_int (m * 60))"

section \<open>\<open>stringToValue\<close>\<close>

text \<open>What a \<open>driver.Value\<close> can hold.\<close>

datatype driver_value =
    VNil
  | VInt64 int64
  | VFloat64 "64 word"
  | VBool bool
  | VBytes "8 word list"
  | VString string
  | VTime Time

text \<open>
  \<open>stringToValue dest meta srcValue\<close> writes through the pointer \<open>dest\<close> and returns an
  error. The model takes the value \<open>*dest\<close> holds before the call and the column's type
  name, and returns either the error (or panic), in which case \<open>*dest\<close> has not been
  written, or the value \<open>*dest\<close> holds when the function returns \<open>nil\<close>. For a nil
  \<open>srcValue\<close> the function assigns \<open>nil\<close> to its own parameter \<open>dest\<close>, not to
  \<open>*dest\<close>: the destination keeps its value. The \<open>time\<close> case repeats the body of
  \<open>extractTimestamp\<close> line by line.
\<close>

definition stringToValue ::
    "(int64 \<Rightarrow> int64) \<Rightarrow> driver_value \<Rightarrow> string \<Rightarrow> string option \<Rightarrow> error + driver_value" where
  "stringToValue localZone dest ty srcValue =
     (case srcValue of
        None \<Rightarrow> Inr dest
      | Some src \<Rightarrow>
          if ty = ''text'' then Inr (VString src)
          else if ty = ''date'' then
            (case ParseInt src of
               Inl err \<Rightarrow> Inl err
             | Inr v \<Rightarrow> Inr (VTime (toUTC (Unix (v * 86400) 0))))
          else if ty = ''time'' then
            (case extractTimestamp src of
               Inl err \<Rightarrow> Inl err
             | Inr (sec, nsec) \<Rightarrow> Inr (VTime (Add zeroTime (sec * 1000000000 + nsec))))
          else if ty = ''timestamp_ntz'' then
            (case extractTimestamp src of
               Inl err \<Rightarrow> Inl err
             | Inr (sec, nsec) \<Rightarrow> Inr (VTime (toUTC (Unix sec nsec))))
          else if ty = ''timestamp_ltz'' then
            (case extractTimestamp src of
               Inl err \<Rightarrow> Inl err
             | Inr (sec, nsec) \<Rightarrow>
                 (let tt = Unix sec nsec;
                      offset = Zone localZone tt in
                  Inr (VTime (Add tt (1000000000 * (- offset))))))
          else if ty = ''timestamp_tz'' then
            (let tm = Split src (CHR '' '') in
             if length tm \<noteq> 2 then
               Inl (SnowflakeError ErrInvalidTimestampTz (''invalid TIMESTAMP_TZ data: '' @ src))
             else
               (case extractTimestamp (tm ! 0) of
                  Inl err \<Rightarrow> Inl err
                | Inr (sec, nsec) \<Rightarrow>
                    (case ParseInt (tm ! 1) of
                       Inl err \<Rightarrow>
                         Inl (SnowflakeError ErrInvalidTimestampTz
                                (''invalid TIMESTAMP_TZ data: '' @ src))
                     | Inr offset \<Rightarrow>
                         Inr (VTime (In (Unix sec nsec) (LocationWithOffset (offset - 1440)))))))
          else Inr (VString src))"

section \<open>\<open>goTypeToSnowflake\<close> and \<open>valueToString\<close>\<close>

text \<open>
  A value passed as \<open>interface{}\<close>: the nil interface, or a value with its dynamic type.
  For the basic kinds the \<open>string option\<close> is \<open>None\<close> for the predeclared type
  (\<open>int\<close>, \<open>bool\<close>, ...) and \<open>Some name\<close> for a defined type of that kind. Integers
  are held as \<open>reflect\<close> reads them (widened to 64 bits), floats as the bits of the
  \<open>float64\<close> that \<open>Value.Float\<close> returns. Slices and maps carry the string of their type
  and whether they are nil; a struct carries its type, \<open>time.Time\<close> or another struct type
  by name (no function here reads a field). The remaining kinds carry the string of their type
  and whether the value is nil (meaningful for channels, functions and pointers).
\<close>

datatype int_kind = KInt | KInt8 | KInt16 | KInt32 | KInt64
datatype uint_kind = KUint | KUint8 | KUint16 | KUint32 | KUint64 | KUintptr
datatype float_kind = KFloat32 | KFloat64
datatype other_kind =
    KComplex64 | KComplex128 | KArray | KChan | KFunc | KInterface | KPtr
  | KUnsafePointer
datatype struct_type = TimeTime | OtherStruct string

datatype iface =
    INil
  | IBool "string option" bool
  | IInt int_kind "string option" int64
  | IUint uint_kind "string option" uint64
  | IFloat float_kind "string option" "64 word"
  | IString "string option" string
  | ISlice string bool
  | IMap string bool
  | IStruct struct_type
  | IOther other_kind string bool

fun goTypeToSnowflake :: "iface \<Rightarrow> string" where
  "goTypeToSnowflake (IInt k None i) = ''FIXED''"
| "goTypeToSnowflake (IUint k None u) = (if k = KUintptr then ''TEXT'' else ''FIXED'')"
| "goTypeToSnowflake (IBool None b) = ''BOOLEAN''"
| "goTypeToSnowflake (IFloat k None f) = ''REAL''"
| "goTypeToSnowflake (IStruct TimeTime) = ''DATE''"
| "goTypeToSnowflake (IString None s) = ''TEXT''"
| "goTypeToSnowflake v = ''TEXT''"

subsection \<open>The methods of \<open>reflect.Value\<close> that \<open>valueToString\<close> calls\<close>

fun Kind :: "iface \<Rightarrow> kind" where
  "Kind INil = reflect_Invalid"
| "Kind (IBool n b) = reflect_Bool"
| "Kind (IInt k n i) =
     (case k of KInt \<Rightarrow> reflect_Int | KInt8 \<Rightarrow> reflect_Int8 | KInt16 \<Rightarrow> reflect_Int16
      | KInt32 \<Rightarrow> reflect_Int32 | KInt64 \<Rightarrow> reflect_Int64)"
| "Kind (IUint k n u) =
     (case k of KUint \<Rightarrow> reflect_Uint | KUint8 \<Rightarrow> reflect_Uint8 | KUint16 \<Rightarrow> reflect_Uint16
      | KUint32 \<Rightarrow> reflect_Uint32 | KUint64 \<Rightarrow> reflect_Uint64 | KUintptr \<Rightarrow> reflect_Uintptr)"
| "Kind (IFloat k n f) = (case k of KFloat32 \<Rightarrow> reflect_Float32 | KFloat64 \<Rightarrow> reflect_Float64)"
| "Kind (IString n s) = reflect_String"
| "Kind (ISlice ty isnil) = reflect_Slice"
| "Kind (IMap ty isnil) = reflect_Map"
| "Kind (IStruct ty) = reflect_Struct"
| "Kind (IOther k ty isnil) =
     (case k of KComplex64 \<Rightarrow> reflect_Complex64 | KComplex128 \<Rightarrow> reflect_Complex128
      | KArray \<Rightarrow> reflect_Array | KChan \<Rightarrow> reflect_Chan | KFunc \<Rightarrow> reflect_Func
      | KInterface \<Rightarrow> reflect_Interface | KPtr \<Rightarrow> reflect_Ptr
      | KUnsafePointer \<Rightarrow> reflect_UnsafePointer)"

text \<open>The name \<open>Kind.String\<close> prints, for the messages of \<open>reflect\<close>'s panics.\<close>

fun kind_name :: "kind \<Rightarrow> string" where
  "kind_name reflect_Invalid = ''invalid''" | "kind_name reflect_Bool = ''bool''"
| "kind_name reflect_Int = ''int''" | "kind_name reflect_Int8 = ''int8''"
| "kind_name reflect_Int16 = ''int16''"
| "kind_name reflect_Int32 = ''int32''" | "kind_name reflect_Int64 = ''int64''"
| "kind_name reflect_Uint = ''uint''" | "kind_name reflect_Uint8 = ''uint8''"
| "kind_name reflect_Uint16 = ''uint16''"
| "kind_name reflect_Uint32 = ''uint32''" | "kind_name reflect_Uint64 = ''uint64''"
| "kind_name reflect_Uintptr = ''uintptr''"
| "kind_name reflect_Float32 = ''float32''" | "kind_name reflect_Float64 = ''float64''"
| "kind_name reflect_Complex64 = ''complex64''" | "kind_name reflect_Complex128 = ''complex128''"
| "kind_name reflect_Array = ''array''" | "kind_name reflect_Chan = ''chan''"
| "kind_name reflect_Func = ''func''" | "kind_name reflect_Interface = ''interface''"
| "kind_name reflect_Map = ''map''" | "kind_name reflect_Ptr = ''ptr''"
| "kind_name reflect_Slice = ''slice''" | "kind_name reflect_String = ''string''"
| "kind_name reflect_Struct = ''struct''" | "kind_name reflect_UnsafePointer = ''unsafe.Pointer''"

definition value_error :: "string \<Rightarrow> iface \<Rightarrow> error" where
  "value_error method v =
     Panic (''reflect: call of '' @ method @ '' on '' @ kind_name (Kind v) @ '' Value'')"

text \<open>\<open>Value.Bool\<close>, \<open>Value.Int\<close>, \<open>Value.Uint\<close> and \<open>Value.Float\<close> panic on a
  value of another kind.\<close>

fun Value_Bool :: "iface \<Rightarrow> error + bool" where
  "Value_Bool (IBool n b) = Inr b"
| "Value_Bool v = Inl (value_error ''reflect.Value.Bool'' v)"

fun Value_Int :: "iface \<Rightarrow> error + int64" where
  "Value_Int (IInt k n i) = Inr i"
| "Value_Int v = Inl (value_error ''reflect.Value.Int'' v)"

fun Value_Uint :: "iface \<Rightarrow> error + uint64" where
  "Value_Uint (IUint k n u) = Inr u"
| "Value_Uint v = Inl (value_error ''reflect.Value.Uint'' v)"

fun Value_Float :: "iface \<Rightarrow> error + 64 word" where
  "Value_Float (IFloat k n f) = Inr f"
| "Value_Float v = Inl (value_error ''reflect.Value.Float'' v)"

text \<open>\<open>Value.IsNil\<close>: the value must be a chan, func, interface, map, pointer or slice;
  on any other kind it panics.\<close>

fun Value_IsNil :: "iface \<Rightarrow> error + bool" where
  "Value_IsNil (ISlice ty isnil) = Inr isnil"
| "Value_IsNil (IMap ty isnil) = Inr isnil"
| "Value_IsNil (IOther k ty isnil) =
     (if k \<in> {KChan, KFunc, KInterface, KPtr, KUnsafePointer} then Inr isnil
      else Inl (value_error ''reflect.Value.IsNil'' (IOther k ty isnil)))"
| "Value_IsNil v = Inl (value_error ''reflect.Value.IsNil'' v)"

text \<open>The string of a value's type, \<open>Type.String\<close>.\<close>

fun Type_String :: "iface \<Rightarrow> string" where
  "Type_String INil = ''<nil>''"
| "Type_String (IBool n b) = (case n of None \<Rightarrow> ''bool'' | Some name \<Rightarrow> name)"
| "Type_String (IInt k n i) =
     (case n of None \<Rightarrow> kind_name (Kind (IInt k n i)) | Some name \<Rightarrow> name)"
| "Type_String (IUint k n u) =
     (case n of None \<Rightarrow> kind_name (Kind (IUint k n u)) | Some name \<Rightarrow> name)"
| "Type_String (IFloat k n f) =
     (case n of None \<Rightarrow> kind_name (Kind (IFloat k n f)) | Some name \<Rightarrow> name)"
| "Type_String (IString n s) = (case n of None \<Rightarrow> ''string'' | Some name \<Rightarrow> name)"
| "Type_String (ISlice ty isnil) = ty"
| "Type_String (IMap ty isnil) = ty"
| "Type_String (IStruct ty) = (case ty of TimeTime \<Rightarrow> ''time.Time'' | OtherStruct name \<Rightarrow> name)"
| "Type_String (IOther k ty isnil) = ty"

text \<open>\<open>Value.String\<close> never panics: a string value gives its contents, the invalid value
  \<open><invalid Value>\<close>, any other value \<open><T Value>\<close> for its type \<open>T\<close>.\<close>

fun Value_String :: "iface \<Rightarrow> string" where
  "Value_String (IString n s) = s"
| "Value_String INil = ''<invalid Value>''"
| "Value_String v = ''<'' @ Type_String v @ '' Value>''"

definition FormatBool :: "bool \<Rightarrow> string" where
  "FormatBool b = (if b then ''true'' else ''false'')"

subsection \<open>\<open>valueToString\<close>\<close>

text \<open>
  The result is the \<open>*string\<close> (\<open>None\<close> for nil) or the error. The shortest-decimal
  formatter \<open>strconv.FormatFloat(f, 'g', -1, 32)\<close> is the parameter \<open>FormatFloat32\<close>:
  floating-point rounding is outside this development.
\<close>

definition valueToString :: "(64 word \<Rightarrow> string) \<Rightarrow> iface \<Rightarrow> error + string option" where
  "valueToString FormatFloat32 v =
     (if v = INil then Inr None
      else if Kind v = reflect_Bool then
        (case Value_Bool v of Inl p \<Rightarrow> Inl p | Inr b \<Rightarrow> Inr (Some (FormatBool b)))
      else if Kind v \<in> {reflect_Int, reflect_Int8, reflect_Int16, reflect_Int32,
                         reflect_Int64} then
        (case Value_Int v of Inl p \<Rightarrow> Inl p | Inr i \<Rightarrow> Inr (Some (FormatInt i)))
      else if Kind v \<in> {reflect_Uint, reflect_Uint8, reflect_Uint16, reflect_Uint32,
                         reflect_Uint64} then
        (case Value_Uint v of Inl p \<Rightarrow> Inl p | Inr u \<Rightarrow> Inr (Some (FormatUint u)))
      else if Kind v \<in> {reflect_Float32, reflect_Float64} then
        (case Value_Float v of Inl p \<Rightarrow> Inl p | Inr f \<Rightarrow> Inr (Some (FormatFloat32 f)))
      else if Kind v = reflect_String then Inr (Some (Value_String v))
      else if Kind v \<in> {reflect_Slice, reflect_Map, reflect_Struct} then
        (case Value_IsNil v of
           Inl p \<Rightarrow> Inl p
         | Inr isnil \<Rightarrow> if isnil then Inr None else Inr (Some (Value_String v)))
      else Inl (UnexpectedType (Kind v)))"

section \<open>Vocabulary for the properties\<close>

text \<open>A well-formed decimal literal: an optional sign followed by at least one decimal
  digit.\<close>

definition decimal :: "string \<Rightarrow> bool" where
  "decimal s =
     (let ds = (if s \<noteq> [] \<and> (hd s = CHR ''+'' \<or> hd s = CHR ''-'') then tl s else s) in
      ds \<noteq> [] \<and> list_all is_digit ds)"

text \<open>Sample surroundings for the concrete examples: zone rules under which the local zone
  is one hour east of UTC before Unix second 1000 and two hours east from then on, and a
  float formatter for examples that format no float.\<close>

definition sampleRules :: "int64 \<Rightarrow> int64" where
  "sampleRules unix = (if sint unix < 1000 then 3600 else 7200)"

definition noFloats :: "64 word \<Rightarrow> string" where
  "noFloats bits = []"

section \<open>Parsing what was formatted\<close>

text \<open>The digit loop of \<open>ParseUint\<close> reads back the digits that \<open>digits10\<close> writes, so
  \<open>ParseUint\<close> inverts \<open>FormatUint\<close> and \<open>ParseInt\<close> inverts \<open>FormatInt\<close> on all 64-bit
  values.\<close>

lemma is_digit_digit_char: "0 \<le> k \<Longrightarrow> k < 10 \<Longrightarrow> is_digit (digit_char k)"
  by (simp add: is_digit_def digit_char_def)

lemma digit_val_digit_char: "0 \<le> k \<Longrightarrow> k < 10 \<Longrightarrow> digit_val (digit_char k) = k"
  by (simp add: digit_val_def digit_char_def)

lemma ParseUint_loop_snoc:
  "ParseUint_loop a (xs @ [d]) =
     (case ParseUint_loop a xs of Inl e \<Rightarrow> Inl e | Inr m \<Rightarrow> ParseUint_loop m [d])"
  by (induction xs arbitrary: a) (simp_all add: Let_def)

lemma ParseUint_loop_digit:
  "0 \<le> m \<Longrightarrow> 0 \<le> k \<Longrightarrow> k < 10 \<Longrightarrow> m * 10 + k \<le> maxUint64 \<Longrightarrow>
   ParseUint_loop m [digit_char k] = Inr (m * 10 + k)"
  by (simp add: is_digit_digit_char digit_val_digit_char cutoff10_def maxUint64_def)

lemma ParseUint_loop_digits10:
  "0 \<le> n \<Longrightarrow> n \<le> maxUint64 \<Longrightarrow> ParseUint_loop 0 (digits10 n) = Inr n"
proof (induction n rule: digits10.induct)
  case (1 n)
  show ?case
  proof (cases "n < 10")
    case True
    with "1.prems" ParseUint_loop_digit [of 0 n] show ?thesis
      by (simp add: digits10.simps [of n])
  next
    case False
    with "1.prems" have ih: "ParseUint_loop 0 (digits10 (n div 10)) = Inr (n div 10)"
      using "1.IH" by simp
    have "ParseUint_loop (n div 10) [digit_char (n mod 10)] = Inr (n div 10 * 10 + n mod 10)"
      using "1.prems" by (intro ParseUint_loop_digit) simp_all
    with ih False show ?thesis
      by (simp add: digits10.simps [of n] ParseUint_loop_snoc)
  qed
qed

lemma digits10_not_Nil: "digits10 n \<noteq> []"
  by (subst digits10.simps) simp

lemma hd_digits10: "0 \<le> n \<Longrightarrow> is_digit (hd (digits10 n))"
proof (induction n rule: digits10.induct)
  case (1 n)
  then show ?case
    by (subst digits10.simps) (simp add: is_digit_digit_char digits10_not_Nil)
qed

lemma ParseUint_FormatUint: "ParseUint (FormatUint u) = Inr u"
proof -
  have "uint u \<le> maxUint64"
    using uint_bounded [of u] by (simp add: maxUint64_def)
  then show ?thesis
    by (simp add: ParseUint_def FormatUint_def digits10_not_Nil ParseUint_loop_digits10)
qed

lemma ParseUint_digits10_uint: "ParseUint (digits10 (uint u)) = Inr u"
  using ParseUint_FormatUint [of u] by (simp add: FormatUint_def)

lemma is_digit_not_sign: "is_digit c \<Longrightarrow> c \<noteq> CHR ''-'' \<and> c \<noteq> CHR ''+''"
  by (auto simp: is_digit_def)

lemma mod_add_half:
  assumes "0 \<le> (u::int)" "u < 2 * h"
  shows "(u + h) mod (2 * h) = (if u < h then u + h else u - h)"
proof (cases "u < h")
  case True
  with assms show ?thesis by (simp add: mod_pos_pos_trivial)
next
  case False
  have "(u + h) mod (2 * h) = ((u - h) + 2 * h) mod (2 * h)"
    by (simp add: algebra_simps)
  also have "\<dots> = (u - h) mod (2 * h)"
    by (simp only: mod_add_self2)
  also have "\<dots> = u - h"
    using False assms by (simp add: mod_pos_pos_trivial)
  finally show ?thesis using False by simp
qed

lemma mod_neg_small:
  assumes "0 < (u::int)" "u < m"
  shows "(- u) mod m = m - u"
  using assms by (simp add: zmod_zminus1_eq_if mod_pos_pos_trivial)

lemma sint_int64_cases:
  "sint (i :: 64 word) =
     (if uint i < 9223372036854775808 then uint i else uint i - 18446744073709551616)"
proof -
  have "sint i = take_bit 64 (uint i + 2 ^ 63) - 2 ^ 63"
    by (simp add: sint_uint signed_take_bit_eq_take_bit_shift)
  moreover have "0 \<le> uint i" "uint i < 18446744073709551616"
    using uint_bounded [of i] by simp_all
  ultimately show ?thesis
    using mod_add_half [of "uint i" 9223372036854775808]
    by (simp add: take_bit_eq_mod)
qed

lemma sint_neg_iff: "sint (i :: 64 word) < 0 \<longleftrightarrow> 9223372036854775808 \<le> i"
proof -
  have "0 \<le> uint i" "uint i < 18446744073709551616"
    using uint_bounded [of i] by simp_all
  then show ?thesis
    by (simp add: sint_int64_cases word_le_def)
qed

lemma uint_neg_int64:
  assumes neg: "sint (i :: 64 word) < 0"
  shows "uint (- i) = - sint i"
proof -
  have b: "0 \<le> uint i" "uint i < 18446744073709551616"
    using uint_bounded [of i] by simp_all
  with neg have "9223372036854775808 \<le> uint i"
    by (simp add: sint_int64_cases split: if_splits)
  with b show ?thesis
    using mod_neg_small [of "uint i" 18446744073709551616]
    by (simp add: sint_int64_cases uint_word_ariths)
qed

lemma ParseInt_FormatInt: "ParseInt (FormatInt i) = Inr i"
proof (cases "sint i < 0")
  case True
  have "sint i \<ge> - 9223372036854775808" using sint_greater_eq [of i] by simp
  with True have "uint (- i) \<le> 9223372036854775808" by (simp add: uint_neg_int64)
  then have "\<not> (9223372036854775808 :: 64 word) < - i" by (simp add: word_less_def)
  with True show ?thesis
    by (simp add: ParseInt_def FormatInt_def ParseUint_digits10_uint)
next
  case False
  have "\<not> (9223372036854775808 :: 64 word) \<le> i" using False by (simp add: sint_neg_iff)
  with False show ?thesis
    using is_digit_not_sign [OF hd_digits10 [of "uint i"]]
    by (simp add: ParseInt_def FormatInt_def ParseUint_digits10_uint digits10_not_Nil)
qed

section \<open>What the parsers accept and what \<open>extractTimestamp\<close> computes\<close>

text \<open>\<open>ParseInt\<close> succeeds on decimal literals only, and every failure is a
  \<open>NumError\<close>. The scanning loop stops at the first \<open>.\<close>, which splits the string into
  the seconds and the fraction.\<close>

lemma ParseUint_loop_Inr_digits: "ParseUint_loop n s = Inr m \<Longrightarrow> list_all is_digit s"
  by (induction s arbitrary: n) (auto simp: Let_def split: if_splits)

lemma ParseUint_Inr_digits: "ParseUint s = Inr u \<Longrightarrow> s \<noteq> [] \<and> list_all is_digit s"
  by (auto simp: ParseUint_def split: if_splits sum.splits dest: ParseUint_loop_Inr_digits)

lemma ParseInt_Inl: "ParseInt s = Inl e \<Longrightarrow> \<exists>c. e = NumError s c"
  by (auto simp: ParseInt_def Let_def split: if_splits sum.splits)

lemma ParseInt_Inr_decimal: "ParseInt s = Inr v \<Longrightarrow> decimal s"
  by (auto simp: ParseInt_def decimal_def Let_def split: if_splits sum.splits
      dest: ParseUint_Inr_digits)

lemma ParseInt_not_decimal: "\<not> decimal s \<Longrightarrow> \<exists>c. ParseInt s = Inl (NumError s c)"
proof -
  assume nd: "\<not> decimal s"
  show ?thesis
  proof (cases "ParseInt s")
    case (Inl e)
    with ParseInt_Inl [of s e] show ?thesis by auto
  next
    case (Inr v)
    with nd ParseInt_Inr_decimal show ?thesis by blast
  qed
qed

lemma extractTimestamp_loop_no_dot:
  "i \<le> length s \<Longrightarrow> CHR ''.'' \<notin> set (drop i s) \<Longrightarrow>
   extractTimestamp_loop s i = Inr (length s, 0)"
proof (induction s i rule: extractTimestamp_loop.induct)
  case (1 s i)
  show ?case
  proof (cases "i < length s")
    case True
    then have d: "drop i s = s ! i # drop (Suc i) s"
      by (simp add: Cons_nth_drop_Suc)
    with "1.prems" have "s ! i \<noteq> CHR ''.''" "CHR ''.'' \<notin> set (drop (i + 1) s)"
      by auto
    with True "1.IH" show ?thesis
      by (subst extractTimestamp_loop.simps) simp
  next
    case False
    with "1.prems" show ?thesis
      by (subst extractTimestamp_loop.simps) simp
  qed
qed

lemma extractTimestamp_loop_dot:
  "i \<le> length p \<Longrightarrow> CHR ''.'' \<notin> set (drop i p) \<Longrightarrow>
   extractTimestamp_loop (p @ CHR ''.'' # f) i =
     (case ParseInt p of Inl err \<Rightarrow> Inl err | Inr sec \<Rightarrow> Inr (length p, sec))"
proof (induction "length p - i" arbitrary: i)
  case 0
  then have "i = length p" by simp
  then show ?case
    by (subst extractTimestamp_loop.simps) (simp split: sum.splits)
next
  case (Suc n)
  then have lt: "i < length p" by simp
  then have d: "drop i p = p ! i # drop (Suc i) p"
    by (simp add: Cons_nth_drop_Suc)
  with Suc.prems have nd: "p ! i \<noteq> CHR ''.''" "CHR ''.'' \<notin> set (drop (Suc i) p)"
    by auto
  from Suc.hyps(2) lt have "n = length p - Suc i" by simp
  with Suc.hyps(1) [of "Suc i"] lt nd
  have "extractTimestamp_loop (p @ CHR ''.'' # f) (Suc i) =
     (case ParseInt p of Inl err \<Rightarrow> Inl err | Inr sec \<Rightarrow> Inr (length p, sec))"
    by simp
  with lt nd show ?case
    by (subst extractTimestamp_loop.simps) (simp add: nth_append)
qed

lemma extractTimestamp_no_dot:
  "CHR ''.'' \<notin> set s \<Longrightarrow>
   extractTimestamp s = (case ParseInt s of Inl err \<Rightarrow> Inl err | Inr sec \<Rightarrow> Inr (sec, 0))"
  by (simp add: extractTimestamp_def extractTimestamp_loop_no_dot)

lemma Repeat_zero: "Repeat ''0'' (9 - int (length f)) =
   (if 9 < length f then Inl (Panic ''strings: negative Repeat count'')
    else Inr (replicate (9 - length f) (CHR ''0'')))"
proof -
  have "concat (replicate n ''0'') = replicate n (CHR ''0'')" for n
    by (induction n) simp_all
  moreover have "nat (9 - int (length f)) = 9 - length f" by simp
  ultimately show ?thesis
    by (auto simp: Repeat_def)
qed

lemma extractTimestamp_dot:
  assumes "CHR ''.'' \<notin> set p"
  shows "extractTimestamp (p @ CHR ''.'' # f) =
     (case ParseInt p of
        Inl err \<Rightarrow> Inl err
      | Inr sec \<Rightarrow>
          if 9 < length f then Inl (Panic ''strings: negative Repeat count'')
          else (case ParseInt (f @ replicate (9 - length f) (CHR ''0'')) of
                  Inl err \<Rightarrow> Inl err
                | Inr nsec \<Rightarrow> Inr (sec, nsec)))"
proof -
  have "extractTimestamp_loop (p @ CHR ''.'' # f) 0 =
     (case ParseInt p of Inl err \<Rightarrow> Inl err | Inr sec \<Rightarrow> Inr (length p, sec))"
    using assms by (simp add: extractTimestamp_loop_dot)
  then show ?thesis
    by (simp add: extractTimestamp_def Repeat_zero split: sum.splits)
qed

lemma extractTimestamp_loop_Inl:
  "extractTimestamp_loop s i = Inl e \<Longrightarrow> \<exists>x c. e = NumError x c"
proof (induction s i rule: extractTimestamp_loop.induct)
  case (1 s i)
  from "1.prems" show ?case
    by (subst (asm) extractTimestamp_loop.simps)
       (auto split: if_splits sum.splits dest: ParseInt_Inl "1.IH")
qed

lemma extractTimestamp_Inl:
  "extractTimestamp s = Inl e \<Longrightarrow>
   (\<exists>x c. e = NumError x c) \<or> e = Panic ''strings: negative Repeat count''"
  by (auto simp: extractTimestamp_def Repeat_def Let_def
      split: sum.splits if_splits prod.splits dest: ParseInt_Inl extractTimestamp_loop_Inl)

section \<open>Arithmetic of instants\<close>




lemma Unix_in_range:
  "0 \<le> sint nsec \<Longrightarrow> sint nsec < 1000000000 \<Longrightarrow>
   Unix sec nsec = \<lparr>t_sec = sec, t_nsec = sint nsec, t_loc = Local\<rparr>"
  by (simp add: Unix_def)







lemma sint_minus_1440:
  assumes "- 9223372036854774368 \<le> sint (stored :: 64 word)"
  shows "sint (stored - 1440) = sint stored - 1440"
proof -
  have "sint (stored - 1440) = signed_take_bit 63 (sint stored - sint (1440 :: 64 word))"
    by (simp only: sint_word_ariths) simp
  also have "\<dots> = signed_take_bit 63 (sint stored - 1440)" by simp
  also have "\<dots> = sint stored - 1440"
    using assms sint_lt [of stored] by (intro signed_take_bit_int_eq_self) simp_all
  finally show ?thesis .
qed

section \<open>The properties of the conversions\<close>

subsection \<open>Integers are encoded in decimal; a type without a case is passed through\<close>

lemma valueToString_IInt: "valueToString FormatFloat32 (IInt k nm n) = Inr (Some (FormatInt n))"
  by (cases k) (simp_all add: valueToString_def)

lemma valueToString_IUint:
  "k \<noteq> KUintptr \<Longrightarrow> valueToString FormatFloat32 (IUint k nm u) = Inr (Some (FormatUint u))"
  by (cases k) (simp_all add: valueToString_def)

lemma stringToValue_other_tag:
  "ty \<notin> {''text'', ''date'', ''time'', ''timestamp_ntz'', ''timestamp_ltz'',
          ''timestamp_tz''} \<Longrightarrow>
   stringToValue localZone dest ty (Some src) = Inr (VString src)"
  by (simp add: stringToValue_def)

subsection \<open>C1: an absent field\<close>

text \<open>
  C1 says that decoding an absent field (a nil \<open>srcValue\<close>) sets the destination to null and
  returns no error, for every type tag. The function does return no error for every tag, but
  its assignment \<open>dest = nil\<close> changes the pointer parameter only: the destination keeps
  whatever it held before the call. A destination holding the text \<open>x\<close> still holds it
  afterwards and is not null.
\<close>

theorem stringToValue_nil_keeps_destination:
  "stringToValue localZone dest ty None = Inr dest \<and>
   stringToValue localZone (VString ''x'') ty None \<noteq> Inr VNil"
  by (simp add: stringToValue_def)

subsection \<open>C2: integers under the tag \<open>FIXED\<close>\<close>

text \<open>
  C2 says that encoding an integer and decoding the result with the tag \<open>FIXED\<close> yields the
  native integer again. Counterexample to C2 as stated: the \<open>int64\<close> 7 is encoded as the
  string \<open>7\<close>, its tag is \<open>FIXED\<close>, and decoding that string with that tag yields the text
  value \<open>7\<close>, which is not the native integer 7: \<open>stringToValue\<close> has no case for the tag.
\<close>

theorem fixed_roundtrip_counterexample:
  "valueToString noFloats (IInt KInt64 None 7) = Inr (Some ''7'') \<and>
   goTypeToSnowflake (IInt KInt64 None 7) = ''FIXED'' \<and>
   stringToValue sampleRules VNil ''FIXED'' (Some ''7'') = Inr (VString ''7'') \<and>
   stringToValue sampleRules VNil ''FIXED'' (Some ''7'') \<noteq> Inr (VInt64 7)"
  by code_simp

text \<open>
  C2 as amended: for every integer \<open>n\<close> of a signed type (\<open>int\<close>, \<open>int8\<close>, ...,
  \<open>int64\<close>) or an unsigned type (\<open>uint\<close>, \<open>uint8\<close>, ..., \<open>uint64\<close>), encoding \<open>n\<close>
  produces its decimal string, and decoding that string with the tag \<open>FIXED\<close> (or the
  column type name \<open>fixed\<close>) returns that same string as a text value, with no error. No
  digit is lost: parsing the string in base 10 gives \<open>n\<close> back exactly.
\<close>

theorem fixed_roundtrip_as_text:
  assumes "ty = ''FIXED'' \<or> ty = ''fixed''" and "ku \<noteq> KUintptr"
  shows "valueToString FormatFloat32 (IInt k nm n) = Inr (Some (FormatInt n)) \<and>
         stringToValue localZone dest ty (Some (FormatInt n)) = Inr (VString (FormatInt n)) \<and>
         ParseInt (FormatInt n) = Inr n \<and>
         valueToString FormatFloat32 (IUint ku nm' u) = Inr (Some (FormatUint u)) \<and>
         stringToValue localZone dest ty (Some (FormatUint u)) = Inr (VString (FormatUint u)) \<and>
         ParseUint (FormatUint u) = Inr u"
proof -
  from assms(1)
  have "ty \<notin> {''text'', ''date'', ''time'', ''timestamp_ntz'', ''timestamp_ltz'',
              ''timestamp_tz''}"
    by auto
  then have "stringToValue localZone dest ty (Some x) = Inr (VString x)" for x
    by (rule stringToValue_other_tag)
  with assms(2) show ?thesis
    by (simp add: valueToString_IInt valueToString_IUint ParseInt_FormatInt ParseUint_FormatUint)
qed

text \<open>C2 as amended, at the \<open>int64\<close> \<open>-42\<close> and the \<open>uint8\<close> 255.\<close>

theorem fixed_roundtrip_as_text_witness:
  "valueToString noFloats (IInt KInt64 None (- 42)) = Inr (Some ''-42'') \<and>
   stringToValue sampleRules VNil ''FIXED'' (Some ''-42'') = Inr (VString ''-42'') \<and>
   ParseInt ''-42'' = Inr (- 42) \<and>
   valueToString noFloats (IUint KUint8 None 255) = Inr (Some ''255'') \<and>
   stringToValue sampleRules VNil ''FIXED'' (Some ''255'') = Inr (VString ''255'') \<and>
   ParseUint ''255'' = Inr 255"
proof -
  have f: "FormatInt (- 42) = ''-42''" "FormatUint 255 = ''255''" by code_simp+
  show ?thesis
    using fixed_roundtrip_as_text [of "''FIXED''" KUint8 noFloats KInt64 None "- 42"
        sampleRules VNil None 255]
    by (simp add: f)
qed

subsection \<open>C3: seconds and nanoseconds\<close>

text \<open>
  C3 says that with a \<open>.\<close> the suffix is padded to 9 digits and parsed as the nanoseconds,
  and that \<open>extractTimestamp\<close> fails with a parse error if either segment is not valid
  base 10. Counterexample to C3 as stated: in \<open>1000.\<close> and in \<open>1000.+\<close> the segment after
  the \<open>.\<close> (empty, or a lone sign) is not valid base 10, yet the result is \<open>(1000, 0)\<close>,
  because what is parsed is the padded segment; and in \<open>1.abcdefghijk\<close> the segment after the
  \<open>.\<close> is not valid base 10 and cannot be padded to 9 bytes, and the result is a panic, not
  a parse error.
\<close>

theorem extractTimestamp_segments_counterexample:
  "\<not> decimal [] \<and> ParseInt [] = Inl (NumError [] ErrSyntax) \<and>
   extractTimestamp ''1000.'' = Inr (1000, 0) \<and>
   \<not> decimal ''+'' \<and> ParseInt ''+'' = Inl (NumError ''+'' ErrSyntax) \<and>
   extractTimestamp ''1000.+'' = Inr (1000, 0) \<and>
   \<not> decimal ''abcdefghijk'' \<and>
   extractTimestamp ''1.abcdefghijk'' = Inl (Panic ''strings: negative Repeat count'')"
  by code_simp

text \<open>
  C3 as amended: on a string without \<open>.\<close>, \<open>extractTimestamp\<close> parses the whole string as
  the signed seconds and returns 0 nanoseconds. On a string \<open>p.f\<close>, where \<open>p\<close> is the part
  before the first \<open>.\<close> and the part \<open>f\<close> after it has at most 9 bytes, the seconds are
  parsed from \<open>p\<close> and the nanoseconds from \<open>f\<close> padded on the right with \<open>0\<close> to 9
  bytes. If a string handed to the parser (the whole string, \<open>p\<close>, or the padded \<open>f\<close>) is
  not a decimal literal, the result is a parse error. The three examples of the specification
  hold.
\<close>

theorem extractTimestamp_segments:
  "(CHR ''.'' \<notin> set s \<longrightarrow>
      extractTimestamp s =
        (case ParseInt s of Inl err \<Rightarrow> Inl err | Inr sec \<Rightarrow> Inr (sec, 0)) \<and>
      (\<not> decimal s \<longrightarrow> (\<exists>c. extractTimestamp s = Inl (NumError s c)))) \<and>
   (CHR ''.'' \<notin> set p \<and> length f \<le> 9 \<longrightarrow>
      extractTimestamp (p @ CHR ''.'' # f) =
        (case ParseInt p of
           Inl err \<Rightarrow> Inl err
         | Inr sec \<Rightarrow>
             (case ParseInt (f @ replicate (9 - length f) (CHR ''0'')) of
                Inl err \<Rightarrow> Inl err
              | Inr nsec \<Rightarrow> Inr (sec, nsec))) \<and>
      (\<not> decimal p \<or> \<not> decimal (f @ replicate (9 - length f) (CHR ''0'')) \<longrightarrow>
         (\<exists>x c. extractTimestamp (p @ CHR ''.'' # f) = Inl (NumError x c)))) \<and>
   extractTimestamp ''1000'' = Inr (1000, 0) \<and>
   extractTimestamp ''1000.123'' = Inr (1000, 123000000) \<and>
   extractTimestamp ''1000.123456789'' = Inr (1000, 123456789)"
proof -
  have a: "extractTimestamp s =
        (case ParseInt s of Inl err \<Rightarrow> Inl err | Inr sec \<Rightarrow> Inr (sec, 0))"
    if "CHR ''.'' \<notin> set s"
    using that by (rule extractTimestamp_no_dot)
  have b: "\<exists>c. extractTimestamp s = Inl (NumError s c)"
    if "CHR ''.'' \<notin> set s" "\<not> decimal s"
    using ParseInt_not_decimal [OF that(2)] a [OF that(1)] by auto
  have c: "extractTimestamp (p @ CHR ''.'' # f) =
        (case ParseInt p of
           Inl err \<Rightarrow> Inl err
         | Inr sec \<Rightarrow>
             (case ParseInt (f @ replicate (9 - length f) (CHR ''0'')) of
                Inl err \<Rightarrow> Inl err
              | Inr nsec \<Rightarrow> Inr (sec, nsec)))"
    if "CHR ''.'' \<notin> set p" "length f \<le> 9"
    using that by (simp add: extractTimestamp_dot split: sum.splits)
  have d: "\<exists>x c. extractTimestamp (p @ CHR ''.'' # f) = Inl (NumError x c)"
    if "CHR ''.'' \<notin> set p" "length f \<le> 9"
      "\<not> decimal p \<or> \<not> decimal (f @ replicate (9 - length f) (CHR ''0''))"
  proof (cases "ParseInt p")
    case (Inl e)
    with ParseInt_Inl [of p e] c [OF that(1,2)] show ?thesis by auto
  next
    case (Inr sec)
    then have "decimal p" by (rule ParseInt_Inr_decimal)
    with that(3) have "\<not> decimal (f @ replicate (9 - length f) (CHR ''0''))" by simp
    from ParseInt_not_decimal [OF this] Inr c [OF that(1,2)] show ?thesis by auto
  qed
  have e: "extractTimestamp ''1000'' = Inr (1000, 0)"
    "extractTimestamp ''1000.123'' = Inr (1000, 123000000)"
    "extractTimestamp ''1000.123456789'' = Inr (1000, 123456789)"
    by code_simp+
  from a b c d e show ?thesis by blast
qed

text \<open>C3 as amended, at \<open>-1000\<close>, \<open>1000.123\<close>, and the malformed \<open>12a\<close> and
  \<open>1000.5x\<close>.\<close>

theorem extractTimestamp_segments_witness:
  "CHR ''.'' \<notin> set ''-1000'' \<and> extractTimestamp ''-1000'' = Inr (- 1000, 0) \<and>
   CHR ''.'' \<notin> set ''1000'' \<and> length ''123'' \<le> 9 \<and>
   extractTimestamp ''1000.123'' = Inr (1000, 123000000) \<and>
   CHR ''.'' \<notin> set ''12a'' \<and> \<not> decimal ''12a'' \<and>
   extractTimestamp ''12a'' = Inl (NumError ''12a'' ErrSyntax) \<and>
   \<not> decimal (''5x'' @ replicate (9 - length ''5x'') (CHR ''0'')) \<and>
   extractTimestamp ''1000.5x'' = Inl (NumError ''5x0000000'' ErrSyntax)"
proof -
  have p: "ParseInt ''-1000'' = Inr (- 1000)" "ParseInt ''1000'' = Inr 1000"
    "ParseInt ''123000000'' = Inr 123000000"
    "ParseInt ''12a'' = Inl (NumError ''12a'' ErrSyntax)"
    "ParseInt ''5x0000000'' = Inl (NumError ''5x0000000'' ErrSyntax)"
    by code_simp+
  have r: "replicate 6 (CHR ''0'') = ''000000''" "replicate 7 (CHR ''0'') = ''0000000''"
    by code_simp+
  have n: "\<not> decimal ''12a''" "\<not> decimal ''5x0000000''" by code_simp+
  show ?thesis
    using extractTimestamp_segments [of "''-1000''" "''1000''" "''123''"]
      extractTimestamp_segments [of "''12a''" "''1000''" "''5x''"]
    by (simp add: p r n)
qed

subsection \<open>C4: a fraction of more than nine digits\<close>

text \<open>Whenever the part after the first \<open>.\<close> is longer than 9 bytes (and the part before it
  parses), the padding count \<open>9 - len(s)\<close> is negative and \<open>strings.Repeat\<close> panics.\<close>

lemma extractTimestamp_long_fraction:
  "CHR ''.'' \<notin> set p \<Longrightarrow> ParseInt p = Inr sec \<Longrightarrow> 9 < length f \<Longrightarrow>
   extractTimestamp (p @ CHR ''.'' # f) = Inl (Panic ''strings: negative Repeat count'')"
  by (simp add: extractTimestamp_dot)

text \<open>
  C4 says that a fraction longer than 9 digits is parsed as it is into the nanoseconds and that
  the function returns normally. On \<open>1000.1234567890\<close> the function does not return
  \<open>(1000, 1234567890)\<close>: it panics in \<open>strings.Repeat\<close>.
\<close>

theorem extractTimestamp_long_fraction_panics:
  "extractTimestamp ''1000.1234567890'' = Inl (Panic ''strings: negative Repeat count'') \<and>
   extractTimestamp ''1000.1234567890'' \<noteq> Inr (1000, 1234567890)"
  by code_simp

subsection \<open>C5: when \<open>TIMESTAMP_TZ\<close> is invalid\<close>

text \<open>
  C5 says that decoding with the type \<open>timestamp_tz\<close> fails with \<open>InvalidTimestampTz\<close>
  exactly when the raw string does not split into two fields or the offset field is not a
  base-10 integer. Counterexample to C5 as stated: \<open>abc xyz\<close> splits into two fields and its
  offset field \<open>xyz\<close> is not a base-10 integer, yet the error returned is the parse error of
  the epoch field \<open>abc\<close>, which is decoded first.
\<close>

theorem timestamp_tz_counterexample:
  "Split ''abc xyz'' (CHR '' '') = [''abc'', ''xyz''] \<and>
   \<not> decimal ''xyz'' \<and>
   ParseInt ''xyz'' = Inl (NumError ''xyz'' ErrSyntax) \<and>
   stringToValue sampleRules VNil ''timestamp_tz'' (Some ''abc xyz'') =
     Inl (NumError ''abc'' ErrSyntax)"
  by code_simp

text \<open>
  C5 as amended: decoding with the type \<open>timestamp_tz\<close> fails with \<open>InvalidTimestampTz\<close>
  exactly when the raw string does not split on spaces into exactly two fields, or it does,
  the epoch field is decoded by \<open>extractTimestamp\<close> without error, and the offset field
  does not parse as a base-10 64-bit integer. The error's message carries the raw string. When
  the epoch field fails, its own error is returned instead.
\<close>

theorem timestamp_tz_invalid_iff:
  "((\<exists>msg. stringToValue localZone dest ''timestamp_tz'' (Some raw) =
            Inl (SnowflakeError ErrInvalidTimestampTz msg)) \<longleftrightarrow>
      (length (Split raw (CHR '' '')) \<noteq> 2 \<or>
       (\<exists>sec nsec. extractTimestamp (Split raw (CHR '' '') ! 0) = Inr (sec, nsec)) \<and>
       (\<exists>err. ParseInt (Split raw (CHR '' '') ! 1) = Inl err))) \<and>
   (\<forall>number msg. stringToValue localZone dest ''timestamp_tz'' (Some raw) =
                   Inl (SnowflakeError number msg) \<longrightarrow>
                 msg = ''invalid TIMESTAMP_TZ data: '' @ raw) \<and>
   (\<forall>err. length (Split raw (CHR '' '')) = 2 \<and>
          extractTimestamp (Split raw (CHR '' '') ! 0) = Inl err \<longrightarrow>
          stringToValue localZone dest ''timestamp_tz'' (Some raw) = Inl err)"
proof -
  have ne: "extractTimestamp x = Inl e \<Longrightarrow> e \<noteq> SnowflakeError number msg" for x e number msg
    by (auto dest: extractTimestamp_Inl)
  show ?thesis
    by (auto simp: stringToValue_def Let_def split: sum.splits prod.splits dest: ne)
qed

text \<open>C5 as amended, at \<open>abc\<close> (one field) and at \<open>1000.5 utc\<close> (a non-numeric offset).\<close>

theorem timestamp_tz_invalid_iff_witness:
  "length (Split ''abc'' (CHR '' '')) \<noteq> 2 \<and>
   stringToValue sampleRules VNil ''timestamp_tz'' (Some ''abc'') =
     Inl (SnowflakeError ErrInvalidTimestampTz ''invalid TIMESTAMP_TZ data: abc'') \<and>
   length (Split ''1000.5 utc'' (CHR '' '')) = 2 \<and>
   extractTimestamp (Split ''1000.5 utc'' (CHR '' '') ! 0) = Inr (1000, 500000000) \<and>
   ParseInt (Split ''1000.5 utc'' (CHR '' '') ! 1) = Inl (NumError ''utc'' ErrSyntax) \<and>
   stringToValue sampleRules VNil ''timestamp_tz'' (Some ''1000.5 utc'') =
     Inl (SnowflakeError ErrInvalidTimestampTz ''invalid TIMESTAMP_TZ data: 1000.5 utc'') \<and>
   length (Split ''abc xyz'' (CHR '' '')) = 2 \<and>
   extractTimestamp (Split ''abc xyz'' (CHR '' '') ! 0) = Inl (NumError ''abc'' ErrSyntax) \<and>
   stringToValue sampleRules VNil ''timestamp_tz'' (Some ''abc xyz'') =
     Inl (NumError ''abc'' ErrSyntax)"
proof -
  have s: "Split ''abc'' (CHR '' '') = [''abc'']"
    "Split ''1000.5 utc'' (CHR '' '') = [''1000.5'', ''utc'']"
    "Split ''abc xyz'' (CHR '' '') = [''abc'', ''xyz'']"
    by code_simp+
  have e: "extractTimestamp ''1000.5'' = Inr (1000, 500000000)"
    "ParseInt ''utc'' = Inl (NumError ''utc'' ErrSyntax)"
    "extractTimestamp ''abc'' = Inl (NumError ''abc'' ErrSyntax)"
    "stringToValue sampleRules VNil ''timestamp_tz'' (Some ''abc'') =
     Inl (SnowflakeError ErrInvalidTimestampTz ''invalid TIMESTAMP_TZ data: abc'')"
    by code_simp+
  show ?thesis
    using timestamp_tz_invalid_iff [of sampleRules VNil "''abc''"]
      timestamp_tz_invalid_iff [of sampleRules VNil "''1000.5 utc''"]
      timestamp_tz_invalid_iff [of sampleRules VNil "''abc xyz''"]
    by (auto simp: s e)
qed

subsection \<open>C6: the value of a \<open>TIMESTAMP_TZ\<close>\<close>

lemma stringToValue_timestamp_tz:
  assumes "Split raw (CHR '' '') = [epoch, off]"
    and "extractTimestamp epoch = Inr (sec, nsec)"
    and "ParseInt off = Inr stored"
  shows "stringToValue localZone dest ''timestamp_tz'' (Some raw) =
     Inr (VTime (In (Unix sec nsec) (LocationWithOffset (stored - 1440))))"
  using assms by (simp add: stringToValue_def)

text \<open>
  C6: for a payload of two fields whose epoch field is decoded by \<open>extractTimestamp\<close> to
  \<open>(sec, nsec)\<close> and whose offset field parses to \<open>stored\<close>, the decoded value is the
  instant \<open>time.Unix(sec, nsec)\<close> in the location \<open>LocationWithOffset(stored - 1440)\<close>:
  its seconds and nanoseconds are \<open>sec\<close> and \<open>nsec\<close> (for nanoseconds within a second),
  and its zone is \<open>stored - 1440\<close> minutes from UTC (unless that subtraction leaves the
  64-bit range). So \<open>1000.5 1440\<close> is 1000 s and 500,000,000 ns at offset 0, and \<open>0 1380\<close>
  is the epoch at offset -60 minutes.
\<close>

theorem timestamp_tz_decodes_offset:
  "(Split raw (CHR '' '') = [epoch, off] \<and> extractTimestamp epoch = Inr (sec, nsec) \<and>
    ParseInt off = Inr stored \<longrightarrow>
      (\<exists>t. stringToValue localZone dest ''timestamp_tz'' (Some raw) = Inr (VTime t) \<and>
           t = In (Unix sec nsec) (LocationWithOffset (stored - 1440)) \<and>
           (0 \<le> sint nsec \<and> sint nsec < 1000000000 \<longrightarrow>
              t_sec t = sec \<and> t_nsec t = sint nsec) \<and>
           (- 9223372036854774368 \<le> sint stored \<longrightarrow>
              t_loc t = FixedOffset (sint stored - 1440)))) \<and>
   stringToValue localZone dest ''timestamp_tz'' (Some ''1000.5 1440'') =
     Inr (VTime \<lparr>t_sec = 1000, t_nsec = 500000000, t_loc = FixedOffset 0\<rparr>) \<and>
   stringToValue localZone dest ''timestamp_tz'' (Some ''0 1380'') =
     Inr (VTime \<lparr>t_sec = 0, t_nsec = 0, t_loc = FixedOffset (- 60)\<rparr>)"
proof -
  have g: "\<exists>t. stringToValue localZone dest ''timestamp_tz'' (Some raw) = Inr (VTime t) \<and>
           t = In (Unix sec nsec) (LocationWithOffset (stored - 1440)) \<and>
           (0 \<le> sint nsec \<and> sint nsec < 1000000000 \<longrightarrow>
              t_sec t = sec \<and> t_nsec t = sint nsec) \<and>
           (- 9223372036854774368 \<le> sint stored \<longrightarrow>
              t_loc t = FixedOffset (sint stored - 1440))"
    if h: "Split raw (CHR '' '') = [epoch, off]" "extractTimestamp epoch = Inr (sec, nsec)"
      "ParseInt off = Inr stored"
    using stringToValue_timestamp_tz [OF h, of localZone dest]
    by (simp add: In_def Unix_in_range LocationWithOffset_def sint_minus_1440)
  have s: "Split ''1000.5 1440'' (CHR '' '') = [''1000.5'', ''1440'']"
    "Split ''0 1380'' (CHR '' '') = [''0'', ''1380'']"
    by code_simp+
  have e: "extractTimestamp ''1000.5'' = Inr (1000, 500000000)"
    "extractTimestamp ''0'' = Inr (0, 0)"
    "ParseInt ''1440'' = Inr 1440" "ParseInt ''1380'' = Inr 1380"
    by code_simp+
  have u: "In (Unix 1000 500000000) (LocationWithOffset (1440 - 1440)) =
      \<lparr>t_sec = 1000, t_nsec = 500000000, t_loc = FixedOffset 0\<rparr>"
    "In (Unix 0 0) (LocationWithOffset (1380 - 1440)) =
      \<lparr>t_sec = 0, t_nsec = 0, t_loc = FixedOffset (- 60)\<rparr>"
    by code_simp+
  have x1: "stringToValue localZone dest ''timestamp_tz'' (Some ''1000.5 1440'') =
     Inr (VTime \<lparr>t_sec = 1000, t_nsec = 500000000, t_loc = FixedOffset 0\<rparr>)"
    using stringToValue_timestamp_tz [OF s(1) e(1) e(3), of localZone dest]
    by (simp only: u)
  have x2: "stringToValue localZone dest ''timestamp_tz'' (Some ''0 1380'') =
     Inr (VTime \<lparr>t_sec = 0, t_nsec = 0, t_loc = FixedOffset (- 60)\<rparr>)"
    using stringToValue_timestamp_tz [OF s(2) e(2) e(4), of localZone dest]
    by (simp only: u)
  from g x1 x2 show ?thesis by blast
qed

text \<open>C6 at \<open>5.25 1500\<close>: 5 s and 250,000,000 ns, one hour east of UTC.\<close>

theorem timestamp_tz_decodes_offset_witness:
  "Split ''5.25 1500'' (CHR '' '') = [''5.25'', ''1500''] \<and>
   extractTimestamp ''5.25'' = Inr (5, 250000000) \<and>
   ParseInt ''1500'' = Inr 1500 \<and>
   0 \<le> sint (250000000 :: int64) \<and> sint (250000000 :: int64) < 1000000000 \<and>
   - 9223372036854774368 \<le> sint (1500 :: int64) \<and>
   stringToValue sampleRules VNil ''timestamp_tz'' (Some ''5.25 1500'') =
     Inr (VTime \<lparr>t_sec = 5, t_nsec = 250000000, t_loc = FixedOffset 60\<rparr>)"
proof -
  have h: "Split ''5.25 1500'' (CHR '' '') = [''5.25'', ''1500'']"
    "extractTimestamp ''5.25'' = Inr (5, 250000000)"
    "ParseInt ''1500'' = Inr 1500"
    by code_simp+
  have t: "\<exists>t. stringToValue sampleRules VNil ''timestamp_tz'' (Some ''5.25 1500'') =
              Inr (VTime t) \<and>
           t = In (Unix 5 250000000) (LocationWithOffset (1500 - 1440)) \<and>
           (0 \<le> sint (250000000 :: int64) \<and> sint (250000000 :: int64) < 1000000000 \<longrightarrow>
              t_sec t = 5 \<and> t_nsec t = sint (250000000 :: int64)) \<and>
           (- 9223372036854774368 \<le> sint (1500 :: int64) \<longrightarrow>
              t_loc t = FixedOffset (sint (1500 :: int64) - 1440))"
    using timestamp_tz_decodes_offset [of "''5.25 1500''" "''5.25''" "''1500''" 5 250000000
        1500 sampleRules VNil] h
    by blast
  then show ?thesis
    by (auto simp: h In_def)
qed

subsection \<open>C7: an unrecognized type\<close>

text \<open>
  C7: for a present field and a type name other than \<open>text\<close>, \<open>date\<close>, \<open>time\<close>,
  \<open>timestamp_ntz\<close>, \<open>timestamp_ltz\<close> and \<open>timestamp_tz\<close>, decoding returns the raw
  string unchanged as a text value, with no error.
\<close>

theorem unrecognized_tag_passes_through:
  "ty \<notin> {''text'', ''date'', ''time'', ''timestamp_ntz'', ''timestamp_ltz'',
          ''timestamp_tz''} \<Longrightarrow>
   stringToValue localZone dest ty (Some src) = Inr (VString src)"
  by (simp add: stringToValue_def)

text \<open>C7 at the raw string \<open>42\<close> and the type name \<open>variant\<close>.\<close>

theorem unrecognized_tag_passes_through_witness:
  "''variant'' \<notin> {''text'', ''date'', ''time'', ''timestamp_ntz'', ''timestamp_ltz'',
          ''timestamp_tz''} \<and>
   stringToValue sampleRules VNil ''variant'' (Some ''42'') = Inr (VString ''42'')"
  using unrecognized_tag_passes_through [of "''variant''" sampleRules VNil "''42''"]
  by simp

subsection \<open>C8: \<open>TIMESTAMP_LTZ\<close>\<close>




subsection \<open>C10: struct values\<close>

text \<open>
  C10: for every value whose kind is \<open>reflect.Struct\<close>, \<open>valueToString\<close> reaches the case
  of slices, maps and structs and calls \<open>IsNil\<close>, which panics on a struct: it returns
  neither a string nor its own error. A \<open>time.Time\<close> is such a value, and it is the very type
  that \<open>goTypeToSnowflake\<close> tags \<open>DATE\<close>.
\<close>

theorem struct_values_panic:
  "(Kind v = reflect_Struct \<longrightarrow>
      valueToString FormatFloat32 v =
        Inl (Panic ''reflect: call of reflect.Value.IsNil on struct Value'')) \<and>
   Kind (IStruct TimeTime) = reflect_Struct \<and>
   goTypeToSnowflake (IStruct TimeTime) = ''DATE''"
proof -
  have "valueToString FormatFloat32 v =
        Inl (Panic ''reflect: call of reflect.Value.IsNil on struct Value'')"
    if "Kind v = reflect_Struct"
    using that
    by (cases v) (simp_all add: valueToString_def value_error_def
        split: int_kind.splits uint_kind.splits float_kind.splits other_kind.splits)
  then show ?thesis by simp
qed

text \<open>C10 at a \<open>time.Time\<close> and at a value of another struct type.\<close>

theorem struct_values_panic_witness:
  "Kind (IStruct TimeTime) = reflect_Struct \<and>
   valueToString noFloats (IStruct TimeTime) =
     Inl (Panic ''reflect: call of reflect.Value.IsNil on struct Value'') \<and>
   Kind (IStruct (OtherStruct ''main.Point'')) = reflect_Struct \<and>
   valueToString noFloats (IStruct (OtherStruct ''main.Point'')) =
     Inl (Panic ''reflect: call of reflect.Value.IsNil on struct Value'')"
  using struct_values_panic [of "IStruct TimeTime" noFloats]
    struct_values_panic [of "IStruct (OtherStruct ''main.Point'')" noFloats]
  by simp

end
